theory Spec2Isabelle
  imports Complex_Main "HOL-Library.Word" "HOL-Library.Signed_Division"
begin

section \<open>Machine types\<close>

text \<open>
  The embedding fixes the LP64 data model of the platforms the interpreter is built for:
  \<open>size_t\<close>, \<open>long\<close> and pointers are 64 bits wide, \<open>int\<close> is 32 bits wide.
  Unsigned arithmetic wraps around, as C defines it; signed \<open>int\<close> arithmetic is
  two's complement and read through \<open>sint\<close>.
\<close>

type_synonym size_t = "64 word"
type_synonym c_int = "32 word"
type_synonym ptr = "64 word"

abbreviation NULL :: ptr where
  "NULL \<equiv> 0"

abbreviation sizeof_size_t :: size_t where
  "sizeof_size_t \<equiv> 8"

section \<open>The bounded allocator (utils.c)\<close>

subsection \<open>The system allocator underneath\<close>

text \<open>
  \<open>safe_malloc\<close>, \<open>safe_realloc\<close> and \<open>safe_free\<close> sit on top of the C library's
  \<open>malloc\<close>, \<open>realloc\<close> and \<open>free\<close>. A live block of the system allocator is
  recorded with the address \<open>malloc\<close> returned, the number of bytes that were asked
  for, and the \<open>size_t\<close> that the bounded allocator stores in its first eight bytes.
\<close>

record block =
  base :: ptr
  extent :: size_t
  header :: size_t

text \<open>
  Two blocks are apart when their byte ranges do not overlap.
\<close>

definition apart :: "ptr \<Rightarrow> size_t \<Rightarrow> block \<Rightarrow> bool" where
  "apart p n b \<longleftrightarrow>
     unat p + unat n \<le> unat (base b) \<or> unat (base b) + unat (extent b) \<le> unat p"

text \<open>
  \<open>malloc\<close> is not part of the program. Which address it hands out, and whether it
  hands out one at all, is the environment's choice \<open>sys\<close> (\<open>NULL\<close> for "out of
  memory"). Whatever the choice, the C library only ever returns a block that lies inside
  the address space, with its one-past-the-end address representable, and that overlaps no
  live block; a choice that is not such a block is a failed allocation.
\<close>

definition malloc :: "block list \<Rightarrow> ptr \<Rightarrow> size_t \<Rightarrow> ptr" where
  "malloc live sys n =
     (if sys \<noteq> NULL \<and> unat sys + unat n < 2 ^ 64 \<and> list_all (apart sys n) live
      then sys else NULL)"

definition lookup_block :: "block list \<Rightarrow> ptr \<Rightarrow> block option" where
  "lookup_block live p = find (\<lambda>b. base b = p) live"

definition release_block :: "block list \<Rightarrow> ptr \<Rightarrow> block list" where
  "release_block live p = filter (\<lambda>b. base b \<noteq> p) live"

subsection \<open>The ledger\<close>

text \<open>
  The two globals of utils.c, the live blocks, and what \<open>error\<close> has written to the
  standard error stream.
\<close>

record memory =
  total_memory_limit :: size_t
  memory_used :: size_t
  heap :: "block list"
  stderr :: "string list"

text \<open>
  The state at program start: the static initialisers of utils.c and an empty heap.
\<close>

definition boot :: memory where
  "boot = \<lparr>total_memory_limit = 1073741824, memory_used = 0, heap = [], stderr = []\<rparr>"

definition init_memory :: "size_t \<Rightarrow> memory \<Rightarrow> memory" where
  "init_memory limit m = m\<lparr>total_memory_limit := limit, memory_used := 0\<rparr>"

text \<open>
  \<open>error(format, ...)\<close> for a format without conversions: \<open>?\<close>, the text,
  \<open> ERROR\<close> and a newline on the standard error stream.
\<close>

definition error :: "string \<Rightarrow> memory \<Rightarrow> memory" where
  "error msg m = m\<lparr>stderr := stderr m @ [''?'' @ msg @ '' ERROR\<newline>'']\<rparr>"

text \<open>
  A call returns a value and the new state, ends the process through \<open>exit\<close>, or has
  undefined behaviour (a write past the end of a block, a read of memory that is not live).
\<close>

datatype 'a outcome = Returns 'a memory | Exits int memory | Undefined

definition safe_malloc :: "ptr \<Rightarrow> memory \<Rightarrow> size_t \<Rightarrow> ptr outcome" where
  "safe_malloc sys m sz =
     (let total_size = sz + sizeof_size_t in
      if memory_used m + total_size > total_memory_limit m
      then Returns NULL (error ''OUT OF MEMORY'' m)
      else
        let p = malloc (heap m) sys total_size in
        if p = NULL then Exits 1 (error ''SYSTEM OUT OF MEMORY'' m)
        else if total_size < sizeof_size_t then Undefined
        else Returns (p + sizeof_size_t)
               (m\<lparr>heap := \<lparr>base = p, extent = total_size, header = sz\<rparr> # heap m,
                  memory_used := memory_used m + total_size\<rparr>))"

text \<open>
  \<open>realloc\<close> of a live block either fails and leaves the block as it is, or returns a
  block (at the old address or elsewhere) that overlaps no other live block; the old block
  is then gone. \<open>realloc\<close> of an address that is not a live block is undefined.
\<close>

definition safe_realloc :: "ptr \<Rightarrow> memory \<Rightarrow> ptr \<Rightarrow> size_t \<Rightarrow> size_t \<Rightarrow> ptr outcome" where
  "safe_realloc sys m p old_size new_size =
     (if p = NULL then safe_malloc sys m new_size
      else
        let real_ptr = p - sizeof_size_t;
            total_new_size = new_size + sizeof_size_t;
            total_old_size = old_size + sizeof_size_t
        in
        if memory_used m - total_old_size + total_new_size > total_memory_limit m
        then Returns NULL (error ''OUT OF MEMORY'' m)
        else
          (case lookup_block (heap m) real_ptr of
             None \<Rightarrow> Undefined
           | Some b \<Rightarrow>
               let others = release_block (heap m) real_ptr;
                   new_ptr = malloc others sys total_new_size
               in
               if new_ptr = NULL then Exits 1 (error ''SYSTEM OUT OF MEMORY'' m)
               else if total_new_size < sizeof_size_t then Undefined
               else Returns (new_ptr + sizeof_size_t)
                      (m\<lparr>heap := \<lparr>base = new_ptr, extent = total_new_size,
                                   header = new_size\<rparr> # others,
                         memory_used := memory_used m - total_old_size + total_new_size\<rparr>)))"

definition safe_free :: "memory \<Rightarrow> ptr \<Rightarrow> unit outcome" where
  "safe_free m p =
     (if p = NULL then Returns () m
      else
        let real_ptr = p - sizeof_size_t in
        (case lookup_block (heap m) real_ptr of
           None \<Rightarrow> Undefined
         | Some b \<Rightarrow>
             Returns ()
               (m\<lparr>memory_used := memory_used m - (header b + sizeof_size_t),
                  heap := release_block (heap m) real_ptr\<rparr>)))"

definition get_free_memory :: "memory \<Rightarrow> size_t" where
  "get_free_memory m = total_memory_limit m - memory_used m"

subsection \<open>Sequences of allocator calls\<close>





subsection \<open>The invariant of the ledger\<close>






section \<open>The screen editor (editor.c)\<close>

text \<open>
  The editor keeps a grid of \<open>rows\<close> by \<open>cols\<close> characters in \<open>buffer\<close>, row after
  row, and a cursor. What it sends to the terminal is a list of operations:
  \<open>term_move_cursor\<close>, \<open>putchar\<close> and \<open>fflush\<close>.
\<close>

record Editor =
  rows :: c_int
  cols :: c_int
  cursor_row :: c_int
  cursor_col :: c_int
  buffer :: "char list"

datatype term_op = Move_cursor c_int c_int | Putchar char | Fflush

text \<open>
  C's \<open>/\<close> and \<open>%\<close> on \<open>int\<close> truncate towards zero.
\<close>

definition c_div :: "c_int \<Rightarrow> c_int \<Rightarrow> c_int" where
  "c_div a b = word_of_int (sint a sdiv sint b)"

definition c_mod :: "c_int \<Rightarrow> c_int \<Rightarrow> c_int" where
  "c_mod a b = word_of_int (sint a smod sint b)"

text \<open>
  \<open>editor_plot\<close> returns the editor and the terminal operations it issued. A store
  outside the buffer is undefined behaviour (\<open>None\<close>).
\<close>

definition editor_plot :: "Editor \<Rightarrow> c_int \<Rightarrow> c_int \<Rightarrow> char \<Rightarrow> (Editor \<times> term_op list) option" where
  "editor_plot ed x y c =
     (if x <s 0 \<or> cols ed \<le>s x \<or> y <s 0 \<or> rows ed \<le>s y then Some (ed, [])
      else
        let i = sint (y * cols ed + x) in
        if i < 0 \<or> int (length (buffer ed)) \<le> i then None
        else Some (ed\<lparr>buffer := (buffer ed)[nat i := c]\<rparr>,
                   [Move_cursor y x, Putchar c, Fflush]))"

definition editor_poke_char :: "Editor \<Rightarrow> c_int \<Rightarrow> 8 word \<Rightarrow> (Editor \<times> term_op list) option" where
  "editor_poke_char ed addr val =
     (let offset = addr - 1024 in
      if offset <s 0 \<or> 1000 \<le>s offset then Some (ed, [])
      else
        let r = c_div offset 40;
            c = c_mod offset 40;
            ch = (if 1 \<le> val \<and> val \<le> 26 then char_of (unat val + 64)
                  else if 27 \<le> val \<and> val \<le> 31 then char_of (unat val + 64)
                  else if 32 \<le> val \<and> val \<le> 63 then char_of (unat val)
                  else if 64 \<le> val \<and> val \<le> 95 then char_of (unat val + 32)
                  else if 96 \<le> val \<and> val \<le> 127 then char_of (unat val)
                  else CHR ''?'');
            tr = c_div (r * rows ed) 25;
            tc = c_div (c * cols ed) 40
        in editor_plot ed tc tr ch)"

section \<open>The driver (cfbasic.c)\<close>

subsection \<open>Telling program lines from commands\<close>

definition isdigit :: "char \<Rightarrow> bool" where
  "isdigit c \<longleftrightarrow> 48 \<le> (of_char c :: nat) \<and> (of_char c :: nat) \<le> 57"

definition blank :: "char \<Rightarrow> bool" where
  "blank c \<longleftrightarrow> c = CHR '' '' \<or> c = CHR 0x09"

definition is_immediate_command :: "string \<Rightarrow> bool" where
  "is_immediate_command line =
     (case dropWhile blank line of [] \<Rightarrow> True | c # cs \<Rightarrow> \<not> isdigit c)"

text \<open>
  \<open>strtol(s, &endptr, 10)\<close> for a string that starts with a decimal digit, the only way
  the driver calls it: the value of the leading run of digits, held at \<open>LONG_MAX\<close> when
  it is larger, and the rest of the string.
\<close>

definition digit_val :: "char \<Rightarrow> nat" where
  "digit_val c = of_char c - 48"

definition decimal :: "string \<Rightarrow> nat" where
  "decimal ds = foldl (\<lambda>n c. 10 * n + digit_val c) 0 ds"

definition strtol :: "string \<Rightarrow> int \<times> string" where
  "strtol s = (min (int (decimal (takeWhile isdigit s))) (2 ^ 63 - 1), dropWhile isdigit s)"

text \<open>
  \<open>extract_line_number\<close> returns the line number, or -1, and what it stored through
  \<open>rest\<close>: nothing (\<open>None\<close>) when it returns -1 early. The \<open>long\<close> that \<open>strtol\<close>
  returns is converted to \<open>int\<close> by keeping its low 32 bits.
\<close>

definition extract_line_number :: "string \<Rightarrow> c_int \<times> string option" where
  "extract_line_number line =
     (case dropWhile blank line of
        [] \<Rightarrow> (- 1, None)
      | c # cs \<Rightarrow>
          if \<not> isdigit c then (- 1, None)
          else
            (case strtol (c # cs) of
               (v, endptr) \<Rightarrow> (word_of_int v, Some (dropWhile blank endptr))))"

subsection \<open>The interpreter as the driver sees it\<close>

text \<open>
  The fields of \<open>Interpreter\<close> that cfbasic.c reads and writes, the strings handed to
  \<open>editor_print\<close> so far (\<open>printed\<close>), and everything interpreter.c keeps for itself
  (\<open>program\<close>: the program store, the variables, the stacks).
\<close>

record 'p interpreter =
  exit_requested :: bool
  break_requested :: bool
  error_occurred :: bool
  error_message :: "string option"
  printed :: "string list"
  program :: 'p

text \<open>
  \<open>editor_print\<close> as the driver sees it, an output sink: the string joins what has
  been printed. Where the characters land on the grid of the editor (cursor, wrapping,
  scrolling) plays no part in what the driver does next.
\<close>

definition editor_print :: "string \<Rightarrow> 'p interpreter \<Rightarrow> 'p interpreter" where
  "editor_print str st = st\<lparr>printed := printed st @ [str]\<rparr>"

text \<open>
  The signal handler; \<open>installed\<close> says whether \<open>global_interp\<close> points to the
  interpreter, as it does while \<open>repl\<close> runs.
\<close>

definition handle_sigint :: "bool \<Rightarrow> 'p interpreter \<Rightarrow> 'p interpreter" where
  "handle_sigint installed st = (if installed then st\<lparr>break_requested := True\<rparr> else st)"

text \<open>
  \<open>snprintf(err_buf, sizeof(err_buf), "?%s ERROR\n", msg)\<close> with a buffer of 256 bytes:
  at most 255 characters are kept.
\<close>

definition error_line :: "string \<Rightarrow> string" where
  "error_line msg = take 255 (''?'' @ msg @ '' ERROR\<newline>'')"

subsection \<open>One turn of the read loop\<close>

text \<open>
  After an immediate command the driver reports the pending error, if there is one, and
  empties the slot: the message is printed through \<open>err_buf\<close> and freed, or \<open>?ERROR\<close>
  is printed when there is no message.
\<close>

definition report_pending_error :: "'p interpreter \<Rightarrow> 'p interpreter" where
  "report_pending_error st =
     (if error_occurred st then
        (case error_message st of
           Some msg \<Rightarrow> (editor_print (error_line msg) st)\<lparr>error_message := None\<rparr>
         | None \<Rightarrow> editor_print ''?ERROR\<newline>'' st)
        \<lparr>error_occurred := False\<rparr>
      else st)"

definition ready_prompt :: "'p interpreter \<Rightarrow> 'p interpreter" where
  "ready_prompt st = (if \<not> exit_requested st then editor_print ''READY.\<newline>'' st else st)"

text \<open>
  \<open>program_add_line\<close> lives in interpreter.c, and \<open>execute_immediate_command\<close> does
  its work through the lexer and interpreter.c; both are parameters here, functions on the
  interpreter state. \<open>repl_body\<close> is the body of the \<open>while\<close> loop of \<open>repl\<close> for one
  result of \<open>editor_read_line\<close> (\<open>None\<close> is the null pointer); it says whether the loop
  goes on to its test again or is left by \<open>break\<close>.
\<close>

datatype flow = Continue | Break

definition repl_body ::
  "('p interpreter \<Rightarrow> c_int \<Rightarrow> string option \<Rightarrow> 'p interpreter) \<Rightarrow>
   ('p interpreter \<Rightarrow> string \<Rightarrow> 'p interpreter) \<Rightarrow>
   'p interpreter \<Rightarrow> string option \<Rightarrow> flow \<times> 'p interpreter" where
  "repl_body program_add_line execute_immediate_command st r =
     (case r of
        None \<Rightarrow>
          if break_requested st
          then (Continue, (editor_print ''?BREAK\<newline>READY.\<newline>'' st)\<lparr>break_requested := False\<rparr>)
          else (Break, st)
      | Some line \<Rightarrow>
          let st1 =
            (if length line > 0 then
               (case extract_line_number line of
                  (line_num, rest) \<Rightarrow>
                    if 0 \<le>s line_num then program_add_line st line_num rest
                    else ready_prompt (report_pending_error (execute_immediate_command st line)))
             else st)
          in (if exit_requested st1 then Break else Continue, st1))"

text \<open>
  The loop itself, over what happens at the terminal: an interrupt signal, or a result of
  \<open>editor_read_line\<close>. The loop ends when \<open>exit_requested\<close> is set or the body breaks;
  when the events run out it is waiting for input.
\<close>

datatype event = Sigint | Read "string option"

fun repl_loop ::
  "('p interpreter \<Rightarrow> c_int \<Rightarrow> string option \<Rightarrow> 'p interpreter) \<Rightarrow>
   ('p interpreter \<Rightarrow> string \<Rightarrow> 'p interpreter) \<Rightarrow>
   'p interpreter \<Rightarrow> event list \<Rightarrow> 'p interpreter" where
  "repl_loop pal eic st [] = st"
| "repl_loop pal eic st (Sigint # evs) = repl_loop pal eic (handle_sigint True st) evs"
| "repl_loop pal eic st (Read r # evs) =
     (if exit_requested st then st
      else
        (case repl_body pal eic st r of
           (Break, st') \<Rightarrow> st'
         | (Continue, st') \<Rightarrow> repl_loop pal eic st' evs))"

subsection \<open>Stand-ins for the interpreter\<close>

text \<open>
  To run the driver on concrete input, interpreter.c is replaced by stand-ins that only
  note what they were called with, and by a command that fails with a given message, as
  \<open>execute_immediate_command\<close> does for LOAD without a file name.
\<close>

datatype noted = Add_line c_int "string option" | Immediate string

definition note_add_line :: "noted list interpreter \<Rightarrow> c_int \<Rightarrow> string option \<Rightarrow> noted list interpreter" where
  "note_add_line st n rest = st\<lparr>program := program st @ [Add_line n rest]\<rparr>"

definition note_command :: "noted list interpreter \<Rightarrow> string \<Rightarrow> noted list interpreter" where
  "note_command st line = st\<lparr>program := program st @ [Immediate line]\<rparr>"

definition failing_command :: "string \<Rightarrow> noted list interpreter \<Rightarrow> string \<Rightarrow> noted list interpreter" where
  "failing_command msg st line =
     st\<lparr>error_occurred := True, error_message := Some msg,
        program := program st @ [Immediate line]\<rparr>"

definition failing_exit_command :: "string \<Rightarrow> noted list interpreter \<Rightarrow> string \<Rightarrow> noted list interpreter" where
  "failing_exit_command msg st line =
     st\<lparr>exit_requested := True, error_occurred := True, error_message := Some msg,
        program := program st @ [Immediate line]\<rparr>"

definition idle :: "noted list interpreter" where
  "idle = \<lparr>exit_requested = False, break_requested = False, error_occurred = False,
            error_message = None, printed = [], program = []\<rparr>"

subsection \<open>Memory sizes on the command line (utils.c)\<close>

text \<open>
  A \<open>double\<close> is a rational number, an infinity or a NaN. \<open>strtod\<close> belongs to the C
  library: it is a parameter that returns the value it parsed and the rest of the string.
\<close>

datatype c_double = Finite rat | Plus_infinity | Minus_infinity | NaN

type_synonym strtod_fn = "string \<Rightarrow> c_double \<times> string"

definition le_zero :: "c_double \<Rightarrow> bool" where
  "le_zero v = (case v of Finite q \<Rightarrow> q \<le> 0 | Minus_infinity \<Rightarrow> True | Plus_infinity \<Rightarrow> False | NaN \<Rightarrow> False)"

text \<open>
  The product with the multiplier, one of 1, \<open>2\<^sup>1\<^sup>0\<close>, \<open>2\<^sup>2\<^sup>0\<close> and \<open>2\<^sup>3\<^sup>0\<close>: scaling
  a \<open>double\<close> by a power of two is exact unless it overflows, and then the product is out
  of the range of \<open>size_t\<close> either way.
\<close>

definition times_double :: "c_double \<Rightarrow> nat \<Rightarrow> c_double" where
  "times_double v k = (case v of Finite q \<Rightarrow> Finite (q * of_nat k) | Plus_infinity \<Rightarrow> Plus_infinity
     | Minus_infinity \<Rightarrow> Minus_infinity | NaN \<Rightarrow> NaN)"

text \<open>
  The conversion \<open>(size_t)d\<close> drops the fraction; it is undefined (\<open>None\<close>) when the
  result is not a value of \<open>size_t\<close>.
\<close>

definition size_t_of_double :: "c_double \<Rightarrow> size_t option" where
  "size_t_of_double v =
     (case v of
        Finite q \<Rightarrow>
          if - 1 < q \<and> q < 2 ^ 64 then Some (word_of_int (if 0 \<le> q then \<lfloor>q\<rfloor> else 0)) else None
      | Plus_infinity \<Rightarrow> None | Minus_infinity \<Rightarrow> None | NaN \<Rightarrow> None)"

definition toupper :: "char \<Rightarrow> char" where
  "toupper c =
     (if 97 \<le> (of_char c :: nat) \<and> (of_char c :: nat) \<le> 122 then char_of (of_char c - 32 :: nat) else c)"

definition parse_memory_size :: "strtod_fn \<Rightarrow> string \<Rightarrow> size_t option" where
  "parse_memory_size strtod str =
     (case strtod str of
        (v, endptr) \<Rightarrow>
          if le_zero v then Some 0
          else
            (case endptr of
               [] \<Rightarrow> size_t_of_double (times_double v 1)
             | c # cs \<Rightarrow>
                 if toupper c = CHR ''K'' then size_t_of_double (times_double v 1024)
                 else if toupper c = CHR ''M'' then size_t_of_double (times_double v (1024 * 1024))
                 else if toupper c = CHR ''G'' then size_t_of_double (times_double v (1024 * 1024 * 1024))
                 else Some 0))"

text \<open>
  One call of \<open>strtod\<close>, by what it returned.
\<close>

definition returning :: "c_double \<Rightarrow> string \<Rightarrow> strtod_fn" where
  "returning v endptr str = (v, endptr)"

text \<open>
  The units as a user reads them: no suffix, or a suffix that starts with K, M or G in
  either case; anything else is not a unit.
\<close>

definition unit_multiplier :: "string \<Rightarrow> nat option" where
  "unit_multiplier endptr =
     (case endptr of
        [] \<Rightarrow> Some 1
      | c # cs \<Rightarrow>
          if c = CHR ''K'' \<or> c = CHR ''k'' then Some 1024
          else if c = CHR ''M'' \<or> c = CHR ''m'' then Some 1048576
          else if c = CHR ''G'' \<or> c = CHR ''g'' then Some 1073741824
          else None)"

subsection \<open>The command line\<close>

datatype stream = Stdout | Stderr

definition print_usage :: "(stream \<times> string) list" where
  "print_usage =
     [(Stdout, ''Usage: cfbasic [OPTIONS] [filename]\<newline>''),
      (Stdout, ''Options:\<newline>''),
      (Stdout, ''  -M, --MEM <size>    Set memory limit (e.g., 1G, 512M, 2048K)\<newline>''),
      (Stdout, ''  -h, --help          Show this help message\<newline>''),
      (Stdout, ''  -v, --version       Show version information\<newline>'')]"

text \<open>
  \<open>main\<close> up to the point where the arguments are done: it returns a status after
  writing some output, or goes on to \<open>init_memory\<close> and the interpreter with the memory
  limit and the file name it found. \<open>None\<close> is undefined behaviour inside
  \<open>parse_memory_size\<close>.
\<close>

datatype startup = Return int "(stream \<times> string) list" | Launch size_t "string option"

fun scan_arguments :: "strtod_fn \<Rightarrow> string list \<Rightarrow> size_t \<Rightarrow> string option \<Rightarrow> startup option" where
  "scan_arguments sd [] memory_limit filename = Some (Launch memory_limit filename)"
| "scan_arguments sd (a # args) memory_limit filename =
     (if a = ''-M'' \<or> a = ''--MEM'' then
        (case args of
           s # args' \<Rightarrow>
             (case parse_memory_size sd s of
                None \<Rightarrow> None
              | Some n \<Rightarrow>
                  if n = 0 then Some (Return 1 [(Stderr, ''Invalid memory size: '' @ s @ ''\<newline>'')])
                  else scan_arguments sd args' n filename)
         | [] \<Rightarrow> Some (Return 1 ((Stderr, ''Missing memory size argument\<newline>'') # print_usage)))
      else if a = ''-h'' \<or> a = ''--help'' then Some (Return 0 print_usage)
      else if a = ''-v'' \<or> a = ''--version'' then Some (Return 0 [(Stdout, ''CFBASIC V1.0.1\<newline>'')])
      else if (case a of [] \<Rightarrow> True | c # cs \<Rightarrow> c \<noteq> CHR ''-'') then scan_arguments sd args memory_limit (Some a)
      else Some (Return 1 ((Stderr, ''Unknown option: '' @ a @ ''\<newline>'') # print_usage)))"

definition main :: "strtod_fn \<Rightarrow> string list \<Rightarrow> startup option" where
  "main sd argv = scan_arguments sd (drop 1 argv) 65536 None"

section \<open>Sample states\<close>

text \<open>
  A ledger with a limit of 64 KB and one live allocation of eight bytes, as
  \<open>init_memory(65536)\<close> and \<open>safe_malloc(8)\<close> leave it when the system allocator
  places the block at address 4096; and a screen of three rows and four columns, blank.
\<close>

definition small_heap :: memory where
  "small_heap =
     \<lparr>total_memory_limit = 65536, memory_used = 16,
      heap = [\<lparr>base = 4096, extent = 16, header = 8\<rparr>], stderr = []\<rparr>"

definition small_screen :: Editor where
  "small_screen =
     \<lparr>rows = 3, cols = 4, cursor_row = 0, cursor_col = 0, buffer = replicate 12 CHR '' ''\<rparr>"

section \<open>Properties of the allocator\<close>

subsection \<open>How much of the address space a heap occupies\<close>






subsection \<open>Every call keeps the ledger in order\<close>


lemma malloc_cases:
  "malloc live sys n = NULL \<or>
   (malloc live sys n = sys \<and> sys \<noteq> NULL \<and> unat sys + unat n < 2 ^ 64 \<and>
    list_all (apart sys n) live)"
  by (simp add: malloc_def)











subsection \<open>Releasing a live block\<close>














subsection \<open>When the allocator turns a request down\<close>

lemma malloc_handle_not_null:
  assumes "malloc live sys n \<noteq> NULL" and "\<not> n < sizeof_size_t"
  shows "malloc live sys n + sizeof_size_t \<noteq> NULL"
proof -
  from assms(1) malloc_cases [of live sys n]
  have p: "malloc live sys n = sys" and fit: "unat sys + unat n < 2 ^ 64"
    by auto
  from assms(2) have "8 \<le> unat n"
    by (simp add: word_less_nat_alt)
  with fit have "unat sys + unat sizeof_size_t < 2 ^ 64"
    by simp
  then have "unat (sys + sizeof_size_t) = unat sys + unat sizeof_size_t"
    by (intro unat_add_lem [THEN iffD1]) simp
  then have "unat (sys + sizeof_size_t) \<noteq> 0"
    by simp
  then show ?thesis
    unfolding p by (metis unat_0)
qed

text \<open>
  In the arithmetic of \<open>size_t\<close> the three outcomes of \<open>safe_malloc\<close> are told apart
  by the test the code makes: a null handle comes back exactly when the test fires, and the
  process exits exactly when the test passes and the system allocator fails.
\<close>

lemma safe_malloc_null_iff:
  "(\<exists>m'. safe_malloc sys m sz = Returns NULL m') \<longleftrightarrow>
     memory_used m + (sz + sizeof_size_t) > total_memory_limit m"
  using malloc_handle_not_null [of "heap m" sys "sz + sizeof_size_t"]
  by (auto simp: safe_malloc_def Let_def)

lemma safe_malloc_null_state:
  "safe_malloc sys m sz = Returns NULL m' \<Longrightarrow> m' = error ''OUT OF MEMORY'' m"
  using malloc_handle_not_null [of "heap m" sys "sz + sizeof_size_t"]
  by (auto simp: safe_malloc_def Let_def split: if_splits)

lemma safe_malloc_exits_iff:
  "(\<exists>c m'. safe_malloc sys m sz = Exits c m') \<longleftrightarrow>
     \<not> memory_used m + (sz + sizeof_size_t) > total_memory_limit m \<and>
     malloc (heap m) sys (sz + sizeof_size_t) = NULL"
  by (auto simp: safe_malloc_def Let_def)

text \<open>
  Where the sum of \<open>memory_used\<close>, the requested size and the eight bytes of overhead
  fits in 64 bits, the test compares the sum itself with the limit.
\<close>

lemma ceiling_test_exact:
  assumes "unat (memory_used m) + unat sz + 8 < 2 ^ 64"
  shows "memory_used m + (sz + sizeof_size_t) > total_memory_limit m \<longleftrightarrow>
     unat (memory_used m) + unat sz + 8 > unat (total_memory_limit m)"
proof -
  have a: "unat (sz + sizeof_size_t) = unat sz + 8"
    using assms by (subst unat_add_lem [THEN iffD1]) simp_all
  have "unat (memory_used m + (sz + sizeof_size_t)) =
      unat (memory_used m) + unat (sz + sizeof_size_t)"
    using assms a by (intro unat_add_lem [THEN iffD1]) simp
  with a show ?thesis
    by (simp add: word_less_nat_alt add.assoc)
qed

lemma safe_malloc_within_range:
  assumes "unat (memory_used m) + unat sz + 8 < 2 ^ 64"
  shows "(\<exists>m'. safe_malloc sys m sz = Returns NULL m') \<longleftrightarrow>
     unat (memory_used m) + unat sz + 8 > unat (total_memory_limit m)"
  using ceiling_test_exact [OF assms] safe_malloc_null_iff by simp

text \<open>
  C2. The claim reads the sum as a number; the code computes it in \<open>size_t\<close>, where it
  wraps around. With a limit of 64 KB and 16 bytes in use, a request for \<open>2\<^sup>6\<^sup>4 - 24\<close>
  bytes is far beyond the ceiling, but \<open>total_size\<close> is \<open>2\<^sup>6\<^sup>4 - 16\<close> and
  \<open>memory_used + total_size\<close> is 0: the test passes, no system allocator can place the
  block, and the process exits. With nothing in use, a request for \<open>2\<^sup>6\<^sup>4 - 1\<close> bytes has
  a \<open>total_size\<close> of 7: the test passes again, and the eight bytes of the header are
  written into a block of seven.
\<close>

theorem safe_malloc_sum_wraps:
  "safe_malloc 4096 (init_memory 65536 boot) 8 = Returns 4104 small_heap
   \<and> unat (memory_used small_heap) + unat (- 24 :: size_t) + 8 > unat (total_memory_limit small_heap)
   \<and> safe_malloc sys small_heap (- 24) = Exits 1 (error ''SYSTEM OUT OF MEMORY'' small_heap)
   \<and> unat (memory_used (init_memory 65536 boot)) + unat (- 1 :: size_t) + 8
       > unat (total_memory_limit (init_memory 65536 boot))
   \<and> safe_malloc 4096 (init_memory 65536 boot) (- 1) = Undefined"
  by (simp add: safe_malloc_def malloc_def apart_def init_memory_def boot_def small_heap_def Let_def
      unsigned_minus_1_eq_mask mask_eq_exp_minus_1)

subsection \<open>Resizing\<close>

lemma safe_realloc_null_state:
  "safe_realloc sys m p old_size new_size = Returns NULL m' \<Longrightarrow> m' = error ''OUT OF MEMORY'' m"
  using malloc_handle_not_null [of "heap m" sys "new_size + sizeof_size_t"]
    malloc_handle_not_null [of "release_block (heap m) (p - sizeof_size_t)" sys
      "new_size + sizeof_size_t"]
  by (auto simp: safe_realloc_def safe_malloc_def Let_def split: if_splits option.splits)

text \<open>
  C3. When the ceiling test of \<open>safe_realloc\<close> fires for a handle that is not null, the
  call returns the null handle after reporting OUT OF MEMORY, and nothing else has happened.
  And whenever \<open>safe_realloc\<close> returns the null handle, the heap is what it was (the
  caller's block is still live, with the header it had), and so are \<open>memory_used\<close> and
  the limit.
\<close>

theorem safe_realloc_failure_atomic:
  "(p \<noteq> NULL \<and>
    memory_used m - (old_size + sizeof_size_t) + (new_size + sizeof_size_t) > total_memory_limit m \<longrightarrow>
      safe_realloc sys m p old_size new_size = Returns NULL (error ''OUT OF MEMORY'' m))
   \<and> (safe_realloc sys m p old_size new_size = Returns NULL m' \<longrightarrow>
        heap m' = heap m \<and> memory_used m' = memory_used m \<and>
        total_memory_limit m' = total_memory_limit m \<and>
        lookup_block (heap m') (p - sizeof_size_t) = lookup_block (heap m) (p - sizeof_size_t))"
proof (intro conjI impI)
  assume "p \<noteq> NULL \<and>
    memory_used m - (old_size + sizeof_size_t) + (new_size + sizeof_size_t) > total_memory_limit m"
  then show "safe_realloc sys m p old_size new_size = Returns NULL (error ''OUT OF MEMORY'' m)"
    by (simp add: safe_realloc_def Let_def)
next
  assume "safe_realloc sys m p old_size new_size = Returns NULL m'"
  then have m': "m' = error ''OUT OF MEMORY'' m"
    by (rule safe_realloc_null_state)
  show "heap m' = heap m" "memory_used m' = memory_used m"
    "total_memory_limit m' = total_memory_limit m"
    "lookup_block (heap m') (p - sizeof_size_t) = lookup_block (heap m) (p - sizeof_size_t)"
    by (simp_all add: m' error_def)
qed

text \<open>
  Growing the eight-byte allocation of the sample ledger to 70000 bytes is turned down; the
  block at 4096 is still there, and 16 bytes are in use as before.
\<close>

theorem safe_realloc_failure_atomic_witness:
  "safe_realloc 8192 small_heap 4104 8 70000 = Returns NULL (error ''OUT OF MEMORY'' small_heap)
   \<and> heap (error ''OUT OF MEMORY'' small_heap) = heap small_heap
   \<and> memory_used (error ''OUT OF MEMORY'' small_heap) = 16
   \<and> lookup_block (heap (error ''OUT OF MEMORY'' small_heap)) 4096
       = Some \<lparr>base = 4096, extent = 16, header = 8\<rparr>"
  using safe_realloc_failure_atomic [of 4104 small_heap 8 70000 8192 "error ''OUT OF MEMORY'' small_heap"]
  by (simp add: small_heap_def error_def lookup_block_def)

text \<open>
  Releasing a live handle twice is another matter: the second call reads a header that is
  no longer there.
\<close>

lemma double_free_undefined:
  "safe_free small_heap 4104 = Returns () (small_heap\<lparr>memory_used := 0, heap := []\<rparr>)
   \<and> safe_free (small_heap\<lparr>memory_used := 0, heap := []\<rparr>) 4104 = Undefined"
  by (simp add: safe_free_def small_heap_def lookup_block_def release_block_def)

text \<open>
  C9. \<open>safe_free\<close> of a null handle returns at once: nothing is deallocated, and the
  ledger, the heap and the error stream are what they were.
\<close>

theorem safe_free_null_noop:
  "safe_free m NULL = Returns () m"
  by (simp add: safe_free_def)

section \<open>Properties of the driver\<close>

subsection \<open>What \<open>extract_line_number\<close> returns\<close>

lemma sint_small_nat:
  assumes "n \<le> 2147483647"
  shows "sint (word_of_nat n :: c_int) = int n"
proof -
  have "sint (word_of_nat n :: c_int) = (int n + 2147483648) mod 4294967296 - 2147483648"
    using int_word_sint [of "int n", where 'a = 32] by simp
  also have "\<dots> = int n"
    using assms by simp
  finally show ?thesis .
qed

lemma line_number_of_digits:
  assumes "\<not> is_immediate_command line"
  shows "extract_line_number line =
     (word_of_int (min (int (decimal (takeWhile isdigit (dropWhile blank line)))) (2 ^ 63 - 1)),
      Some (dropWhile blank (dropWhile isdigit (dropWhile blank line))))"
proof (cases "dropWhile blank line")
  case Nil
  with assms show ?thesis
    unfolding is_immediate_command_def Nil by simp
next
  case (Cons c cs)
  with assms have "isdigit c"
    by (simp add: is_immediate_command_def)
  then show ?thesis
    unfolding extract_line_number_def Cons strtol_def by simp
qed

lemma line_number_immediate:
  assumes "is_immediate_command line"
  shows "extract_line_number line = (- 1, None)"
proof (cases "dropWhile blank line")
  case Nil
  show ?thesis
    unfolding extract_line_number_def Nil by simp
next
  case (Cons c cs)
  with assms have "\<not> isdigit c"
    by (simp add: is_immediate_command_def)
  then show ?thesis
    unfolding extract_line_number_def Cons by simp
qed

lemma error_line_short:
  "length msg \<le> 247 \<Longrightarrow> error_line msg = ''?'' @ msg @ '' ERROR\<newline>''"
  by (simp add: error_line_def)

subsection \<open>BREAK\<close>

text \<open>
  C4. The signal handler sets \<open>break_requested\<close>. When \<open>editor_read_line\<close> returns
  the null pointer and \<open>break_requested\<close> is set, the body of the loop hands
  \<open>?BREAK\<close>, a newline, \<open>READY.\<close> and a newline to \<open>editor_print\<close> (no \<open>ERROR\<close>
  in it), clears \<open>break_requested\<close> and goes back to the loop test. So a session that is
  not about to exit, interrupted while it reads, goes on with the events that follow, from
  the state with the report printed and the flag cleared.
\<close>

theorem break_report:
  "break_requested (handle_sigint True st)
   \<and> (break_requested st \<longrightarrow>
        repl_body pal eic st None =
          (Continue, st\<lparr>printed := printed st @ [''?BREAK\<newline>READY.\<newline>''],
                        break_requested := False\<rparr>))
   \<and> (\<not> exit_requested st \<longrightarrow>
        repl_loop pal eic st (Sigint # Read None # evs) =
          repl_loop pal eic (st\<lparr>printed := printed st @ [''?BREAK\<newline>READY.\<newline>''],
                               break_requested := False\<rparr>) evs)"
  by (simp add: handle_sigint_def repl_body_def editor_print_def)

text \<open>
  An interrupt, then the command LIST: the session prints the BREAK report, runs the
  command and prompts again.
\<close>

theorem break_report_witness:
  "repl_body note_add_line note_command (idle\<lparr>break_requested := True\<rparr>) None =
     (Continue, idle\<lparr>printed := [''?BREAK\<newline>READY.\<newline>'']\<rparr>)
   \<and> repl_loop note_add_line note_command idle [Sigint, Read None, Read (Some ''LIST'')] =
       idle\<lparr>printed := [''?BREAK\<newline>READY.\<newline>'', ''READY.\<newline>''],
            program := [Immediate ''LIST'']\<rparr>"
  using break_report [of "idle\<lparr>break_requested := True\<rparr>" note_add_line note_command
      "[Read (Some ''LIST'')]"]
  by (simp add: idle_def handle_sigint_def repl_body_def extract_line_number_def blank_def
      isdigit_def note_command_def report_pending_error_def ready_prompt_def editor_print_def
      word_sle_eq)

subsection \<open>Errors of immediate commands\<close>

text \<open>
  C5, as claimed, fails. The message goes through a buffer of 256 bytes: for a message of
  300 letters A the driver prints \<open>?\<close> and 254 of the letters, and neither the rest nor
  \<open> ERROR\<close>. And a command that fails and sets \<open>exit_requested\<close> gets its error
  printed, but no \<open>READY.\<close>, and the loop is left.
\<close>

theorem error_report_counterexample:
  "printed (snd (repl_body note_add_line (failing_command (replicate 300 CHR ''A'')) idle (Some ''LOAD'')))
     = [CHR ''?'' # replicate 254 CHR ''A'', ''READY.\<newline>'']
   \<and> repl_body note_add_line (failing_exit_command ''SYNTAX'') idle (Some ''LOAD'')
     = (Break, idle\<lparr>exit_requested := True, printed := [''?SYNTAX ERROR\<newline>''],
                     program := [Immediate ''LOAD'']\<rparr>)"
  by (simp add: repl_body_def extract_line_number_def isdigit_def blank_def failing_command_def
      failing_exit_command_def idle_def ready_prompt_def report_pending_error_def editor_print_def
      error_line_def word_sle_eq)

text \<open>
  C5, amended. Let a line be dispatched as an immediate command (its line number is
  negative), and let the command leave \<open>error_occurred\<close> set with a message. The driver
  prints the first 255 characters of \<open>?\<close>, the message, \<open> ERROR\<close> and a newline, which
  is all of it when the message has at most 247 characters; it clears \<open>error_message\<close>
  and \<open>error_occurred\<close>. When the command has not set \<open>exit_requested\<close>, the driver
  then prints \<open>READY.\<close> and the loop continues. When the command has set
  \<open>exit_requested\<close>, the driver prints nothing after the error and leaves the loop.
\<close>

theorem error_report:
  assumes "line \<noteq> []" and "\<not> 0 \<le>s fst (extract_line_number line)"
    and "eic st line = st2" and "error_occurred st2" and "error_message st2 = Some msg"
  shows "report_pending_error st2 =
           st2\<lparr>printed := printed st2 @ [error_line msg], error_message := None,
               error_occurred := False\<rparr>
       \<and> error_line msg = take 255 (''?'' @ msg @ '' ERROR\<newline>'')
       \<and> (length msg \<le> 247 \<longrightarrow> error_line msg = ''?'' @ msg @ '' ERROR\<newline>'')
       \<and> (\<not> exit_requested st2 \<longrightarrow>
            repl_body pal eic st (Some line) =
              (Continue, st2\<lparr>printed := printed st2 @ [error_line msg, ''READY.\<newline>''],
                             error_message := None, error_occurred := False\<rparr>))
       \<and> (exit_requested st2 \<longrightarrow>
            repl_body pal eic st (Some line) =
              (Break, st2\<lparr>printed := printed st2 @ [error_line msg],
                          error_message := None, error_occurred := False\<rparr>))"
  using assms
  by (auto simp: repl_body_def report_pending_error_def ready_prompt_def editor_print_def
      error_line_def split: prod.splits)

text \<open>
  LOAD without a file name fails with FILENAME REQUIRED: the driver prints the message in
  full, empties the error slot and prompts. A command that fails with BYE and asks to
  leave: the driver prints the message, empties the slot, prints no prompt and breaks.
\<close>

theorem error_report_witness:
  "repl_body note_add_line (failing_command ''FILENAME REQUIRED'') idle (Some ''LOAD'') =
     (Continue, idle\<lparr>printed := [''?FILENAME REQUIRED ERROR\<newline>'', ''READY.\<newline>''],
                    program := [Immediate ''LOAD'']\<rparr>)
   \<and> repl_body note_add_line (failing_exit_command ''BYE'') idle (Some ''QUIT'') =
     (Break, idle\<lparr>exit_requested := True, printed := [''?BYE ERROR\<newline>''],
                 program := [Immediate ''QUIT'']\<rparr>)"
  using error_report [of "''LOAD''" "failing_command ''FILENAME REQUIRED''" idle
      "failing_command ''FILENAME REQUIRED'' idle ''LOAD''" "''FILENAME REQUIRED''" note_add_line]
    error_report [of "''QUIT''" "failing_exit_command ''BYE''" idle
      "failing_exit_command ''BYE'' idle ''QUIT''" "''BYE''" note_add_line]
  by (simp add: extract_line_number_def blank_def isdigit_def failing_command_def
      failing_exit_command_def idle_def error_line_def word_sle_eq)

subsection \<open>Program lines and commands\<close>

text \<open>
  C6, as claimed, fails. The line \<open>0 PRINT 1\<close> begins with a digit and goes to
  \<open>program_add_line\<close> under the key 0, which is not a positive number. And the line
  \<open>2147483648 REM\<close> begins with a digit, but its number does not fit an \<open>int\<close>:
  the line number comes out negative and the line is run as an immediate command.
\<close>

theorem input_line_routing_counterexample:
  "program (snd (repl_body note_add_line note_command idle (Some ''0 PRINT 1'')))
     = [Add_line 0 (Some ''PRINT 1'')]
   \<and> \<not> (0 :: int) < sint (0 :: c_int)
   \<and> \<not> is_immediate_command ''2147483648 REM''
   \<and> program (snd (repl_body note_add_line note_command idle (Some ''2147483648 REM'')))
       = [Immediate ''2147483648 REM'']"
  by (simp add: repl_body_def extract_line_number_def strtol_def decimal_def digit_val_def
      isdigit_def blank_def note_add_line_def note_command_def idle_def is_immediate_command_def
      ready_prompt_def report_pending_error_def editor_print_def word_sle_eq)

text \<open>
  C6, amended. Take a line that is not empty. If, after its leading spaces and tabs, it
  does not begin with a decimal digit, the driver runs it as an immediate command (and then
  reports a pending error and prompts). If it begins with a decimal digit and the number
  \<open>n\<close> it begins with is at most 2147483647, the driver calls \<open>program_add_line\<close> with
  the line number \<open>n\<close>, which may be 0, and the text after the number and the blanks that
  follow it; no command is run. Nothing is said about larger numbers.
\<close>

theorem input_line_routing:
  assumes "line \<noteq> []"
  shows "(is_immediate_command line \<longrightarrow>
            repl_body pal eic st (Some line) =
              (let st1 = ready_prompt (report_pending_error (eic st line))
               in (if exit_requested st1 then Break else Continue, st1)))
       \<and> (\<not> is_immediate_command line \<and> decimal (takeWhile isdigit (dropWhile blank line)) = n
            \<and> n \<le> 2147483647 \<longrightarrow>
            sint (word_of_nat n :: c_int) = int n \<and>
            repl_body pal eic st (Some line) =
              (let st1 = pal st (word_of_nat n)
                           (Some (dropWhile blank (dropWhile isdigit (dropWhile blank line))))
               in (if exit_requested st1 then Break else Continue, st1)))"
proof (intro conjI impI)
  assume "is_immediate_command line"
  then show "repl_body pal eic st (Some line) =
              (let st1 = ready_prompt (report_pending_error (eic st line))
               in (if exit_requested st1 then Break else Continue, st1))"
    using assms by (simp add: repl_body_def line_number_immediate word_sle_eq)
next
  assume a: "\<not> is_immediate_command line \<and> decimal (takeWhile isdigit (dropWhile blank line)) = n
            \<and> n \<le> 2147483647"
  then have s: "sint (word_of_nat n :: c_int) = int n"
    by (simp add: sint_small_nat)
  then show "sint (word_of_nat n :: c_int) = int n" .
  from a have m: "min (int n) (2 ^ 63 - 1) = int n" by simp
  show "repl_body pal eic st (Some line) =
              (let st1 = pal st (word_of_nat n)
                           (Some (dropWhile blank (dropWhile isdigit (dropWhile blank line))))
               in (if exit_requested st1 then Break else Continue, st1))"
    using assms a s m by (simp add: repl_body_def line_number_of_digits word_sle_eq)
qed

text \<open>
  The line \<open>10 PRINT 1\<close> is stored as line 10 with the text \<open>PRINT 1\<close>; the line
  \<open>LIST\<close>, after two spaces, is run as a command.
\<close>

theorem input_line_routing_witness:
  "repl_body note_add_line note_command idle (Some ''10 PRINT 1'') =
     (Continue, idle\<lparr>program := [Add_line 10 (Some ''PRINT 1'')]\<rparr>)
   \<and> repl_body note_add_line note_command idle (Some ''  LIST'') =
     (Continue, idle\<lparr>printed := [''READY.\<newline>''], program := [Immediate ''  LIST'']\<rparr>)"
  using input_line_routing [of "''10 PRINT 1''" note_add_line note_command idle 10]
    input_line_routing [of "''  LIST''" note_add_line note_command idle 0]
  by (simp add: is_immediate_command_def blank_def isdigit_def decimal_def digit_val_def
      note_add_line_def note_command_def idle_def ready_prompt_def report_pending_error_def
      editor_print_def Let_def)

section \<open>Properties of the command line\<close>

subsection \<open>The unit of a memory size\<close>

lemma char_code_eq: "c = d \<longleftrightarrow> (of_char c :: nat) = of_char d"
  by simp

lemma toupper_code:
  "(of_char (toupper c) :: nat) =
     (if 97 \<le> (of_char c :: nat) \<and> (of_char c :: nat) \<le> 122 then of_char c - 32 else of_char c)"
proof -
  have "(of_char c - 32 :: nat) mod 256 = of_char c - 32"
    by (intro mod_less less_imp_diff_less nat_of_char_less_256)
  then show ?thesis
    by (simp add: toupper_def)
qed

lemma toupper_K: "toupper c = CHR ''K'' \<longleftrightarrow> c = CHR ''K'' \<or> c = CHR ''k''"
  unfolding char_code_eq [of _ "CHR ''K''"] char_code_eq [of _ "CHR ''k''"] toupper_code
  by (auto split: if_splits)

lemma toupper_M: "toupper c = CHR ''M'' \<longleftrightarrow> c = CHR ''M'' \<or> c = CHR ''m''"
  unfolding char_code_eq [of _ "CHR ''M''"] char_code_eq [of _ "CHR ''m''"] toupper_code
  by (auto split: if_splits)

lemma toupper_G: "toupper c = CHR ''G'' \<longleftrightarrow> c = CHR ''G'' \<or> c = CHR ''g''"
  unfolding char_code_eq [of _ "CHR ''G''"] char_code_eq [of _ "CHR ''g''"] toupper_code
  by (auto split: if_splits)

lemma parse_memory_size_unit:
  "parse_memory_size sd str =
     (case sd str of
        (v, endptr) \<Rightarrow>
          if le_zero v then Some 0
          else (case unit_multiplier endptr of
                  None \<Rightarrow> Some 0
                | Some k \<Rightarrow> size_t_of_double (times_double v k)))"
  by (auto simp: parse_memory_size_def unit_multiplier_def toupper_K toupper_M toupper_G
      split: prod.splits list.splits)

lemma unit_multiplier_pos: "unit_multiplier endptr = Some k \<Longrightarrow> 0 < k"
  by (auto simp: unit_multiplier_def split: list.splits if_splits)

subsection \<open>When the size is 0\<close>

lemma floor_half: "\<lfloor>1 / 2 :: rat\<rfloor> = 0"
  by (simp add: floor_eq_iff)

lemma size_t_zero_iff:
  assumes "0 < q"
  shows "size_t_of_double (Finite q) = Some 0 \<longleftrightarrow> q < 1"
proof (cases "q < 2 ^ 64")
  case True
  have f0: "0 \<le> \<lfloor>q\<rfloor>" using assms by simp
  have "\<lfloor>q\<rfloor> < 2 ^ 64" using True by (simp add: floor_less_iff)
  with f0 have "uint (word_of_int \<lfloor>q\<rfloor> :: size_t) = \<lfloor>q\<rfloor>"
    by (simp add: uint_word_of_int take_bit_eq_mod)
  then have "(word_of_int \<lfloor>q\<rfloor> :: size_t) = 0 \<longleftrightarrow> \<lfloor>q\<rfloor> = 0"
    by (metis uint_0_eq word_of_int_0)
  also have "\<dots> \<longleftrightarrow> q < 1"
    using assms by (auto simp: floor_eq_iff)
  finally show ?thesis
    using True assms by (simp add: size_t_of_double_def)
next
  case False
  have "(1 :: rat) < 2 ^ 64"
    by simp
  with False have "\<not> q < 1"
    by linarith
  with False show ?thesis
    by (simp add: size_t_of_double_def)
qed

lemma parse_memory_size_zero_iff:
  assumes "sd str = (v, endptr)"
  shows "parse_memory_size sd str = Some 0 \<longleftrightarrow>
           le_zero v \<or> unit_multiplier endptr = None \<or>
           (\<exists>q k. v = Finite q \<and> unit_multiplier endptr = Some k \<and> q * of_nat k < 1)"
proof (cases "le_zero v \<or> unit_multiplier endptr = None")
  case True
  then show ?thesis
    using assms by (auto simp: parse_memory_size_unit)
next
  case False
  then obtain k where k: "unit_multiplier endptr = Some k" and nz: "\<not> le_zero v"
    by auto
  have kpos: "0 < k" using k by (rule unit_multiplier_pos)
  show ?thesis
  proof (cases v)
    case (Finite q)
    with nz have "0 < q" by (simp add: le_zero_def)
    with kpos have "0 < q * of_nat k" by simp
    from size_t_zero_iff [OF this] show ?thesis
      using assms k nz Finite by (simp add: parse_memory_size_unit times_double_def)
  qed (use assms k nz in \<open>simp_all add: parse_memory_size_unit times_double_def size_t_of_double_def\<close>)
qed

text \<open>
  C10, as claimed, fails. For the string \<open>0.5\<close>, \<open>strtod\<close> returns one half and an
  empty rest. One half is greater than 0 and the end of the string is a valid unit, yet
  \<open>parse_memory_size\<close> returns 0: half a byte, converted to \<open>size_t\<close>, is 0.
\<close>

theorem parse_memory_size_counterexample:
  "parse_memory_size (returning (Finite (1 / 2)) []) ''0.5'' = Some 0
   \<and> \<not> le_zero (Finite (1 / 2))
   \<and> unit_multiplier [] = Some 1"
  by (simp add: parse_memory_size_def returning_def le_zero_def times_double_def
      size_t_of_double_def floor_half unit_multiplier_def)

text \<open>
  C10, amended. Let \<open>strtod\<close> return the value \<open>v\<close> and the rest \<open>endptr\<close>.
  \<open>parse_memory_size\<close> returns 0 exactly when \<open>v \<le> 0\<close>, or the rest is neither empty
  nor begins with K, M or G in either case, or the value times the unit is less than 1, so
  that nothing is left of it in a \<open>size_t\<close>. Fractions are accepted: with one half and the
  rest \<open>K\<close> the result is 512. Only the first character of the rest is looked at: with
  the value 1, the rests \<open>KB\<close> and \<open>Kxyz\<close> both give 1024.
\<close>

theorem parse_memory_size_result:
  "(sd str = (v, endptr) \<longrightarrow>
      (parse_memory_size sd str = Some 0 \<longleftrightarrow>
         le_zero v \<or> unit_multiplier endptr = None \<or>
         (\<exists>q k. v = Finite q \<and> unit_multiplier endptr = Some k \<and> q * of_nat k < 1)))
   \<and> parse_memory_size (returning (Finite (1 / 2)) ''K'') ''0.5K'' = Some 512
   \<and> parse_memory_size (returning w (c # tail)) s = parse_memory_size (returning w [c]) s
   \<and> parse_memory_size (returning (Finite 1) ''KB'') ''1KB'' = Some 1024
   \<and> parse_memory_size (returning (Finite 1) ''Kxyz'') ''1Kxyz'' = Some 1024"
proof (intro conjI impI)
  assume "sd str = (v, endptr)"
  then show "parse_memory_size sd str = Some 0 \<longleftrightarrow>
         le_zero v \<or> unit_multiplier endptr = None \<or>
         (\<exists>q k. v = Finite q \<and> unit_multiplier endptr = Some k \<and> q * of_nat k < 1)"
    by (rule parse_memory_size_zero_iff)
next
  show "parse_memory_size (returning w (c # tail)) s = parse_memory_size (returning w [c]) s"
    by (simp add: parse_memory_size_def returning_def)
qed (simp_all add: parse_memory_size_unit unit_multiplier_def returning_def le_zero_def
    times_double_def size_t_of_double_def)

text \<open>
  Three sizes that come out as 0: \<open>0\<close> (not positive), \<open>3x\<close> (no such unit) and
  \<open>0.5\<close> (less than a byte); and one that does not: \<open>2g\<close>.
\<close>

theorem parse_memory_size_result_witness:
  "parse_memory_size (returning (Finite 0) []) ''0'' = Some 0
   \<and> parse_memory_size (returning (Finite 3) ''x'') ''3x'' = Some 0
   \<and> parse_memory_size (returning (Finite (1 / 2)) []) ''0.5'' = Some 0
   \<and> parse_memory_size (returning (Finite 2) ''g'') ''2g'' = Some 2147483648"
  using parse_memory_size_result [of "returning (Finite 0) []" "''0''" "Finite 0" "[]"]
    parse_memory_size_result [of "returning (Finite 3) ''x''" "''3x''" "Finite 3" "''x''"]
    parse_memory_size_result [of "returning (Finite (1 / 2)) []" "''0.5''" "Finite (1 / 2)" "[]"]
  by (simp add: returning_def le_zero_def unit_multiplier_def parse_memory_size_unit
      times_double_def size_t_of_double_def floor_half)

subsection \<open>The arguments of \<open>main\<close>\<close>

lemma scan_arguments_append:
  "scan_arguments sd pre l f = Some (Launch l' f') \<Longrightarrow>
   scan_arguments sd (pre @ rest) l f = scan_arguments sd rest l' f'"
proof (induction sd pre l f rule: scan_arguments.induct)
  case (1 sd memory_limit filename)
  then show ?case by simp
next
  case (2 sd a args memory_limit filename)
  show ?case
  proof (cases "a = ''-M'' \<or> a = ''--MEM''")
    case True
    with "2.prems" obtain s args' n where args: "args = s # args'"
      and n: "parse_memory_size sd s = Some n" "n \<noteq> 0"
      and go: "scan_arguments sd args' n filename = Some (Launch l' f')"
      by (auto split: list.splits option.splits if_splits)
    from "2.IH"(1) [OF True args n(1) n(2) go]
    show ?thesis
      using True args n by auto
  next
    case False
    with "2.prems" have plain: "a \<noteq> ''-h''" "a \<noteq> ''--help''" "a \<noteq> ''-v''" "a \<noteq> ''--version''"
      "(case a of [] \<Rightarrow> True | c # cs \<Rightarrow> c \<noteq> CHR ''-'')"
      and go: "scan_arguments sd args memory_limit (Some a) = Some (Launch l' f')"
      by (auto split: if_splits)
    have "scan_arguments sd (args @ rest) memory_limit (Some a) = scan_arguments sd rest l' f'"
      using "2.IH"(2) False plain go by simp
    then show ?thesis
      using False plain by simp
  qed
qed

text \<open>
  C7. Take any argument vector, and an argument \<open>a\<close> the loop of \<open>main\<close> gets to: the
  arguments before it are file names and memory options with valid sizes, so that \<open>main\<close>
  on them alone would launch the interpreter. If \<open>a\<close> is \<open>-M\<close> or \<open>--MEM\<close> and
  \<open>parse_memory_size\<close> returns 0 for the argument after it, \<open>main\<close> writes
  \<open>Invalid memory size\<close> and the argument to the standard error stream and returns 1. If
  \<open>a\<close> begins with \<open>-\<close> and is none of the six options, \<open>main\<close> writes
  \<open>Unknown option\<close> and the argument to the standard error stream, prints the five lines
  of the usage text on the standard output and returns 1. If \<open>a\<close> is \<open>-h\<close> or
  \<open>--help\<close>, \<open>main\<close> prints the five lines of the usage text and returns 0; if it is
  \<open>-v\<close> or \<open>--version\<close>, \<open>main\<close> prints the version and returns 0. Whatever
  follows makes no difference.
\<close>

theorem cli_exit_status:
  assumes "main sd (prog # pre) = Some (Launch memory_limit filename)"
  shows "((a = ''-M'' \<or> a = ''--MEM'') \<and> parse_memory_size sd s = Some 0 \<longrightarrow>
            main sd (prog # pre @ a # s # rest) =
              Some (Return 1 [(Stderr, ''Invalid memory size: '' @ s @ ''\<newline>'')]))
       \<and> (a \<notin> {''-M'', ''--MEM'', ''-h'', ''--help'', ''-v'', ''--version''} \<and> a = CHR ''-'' # opt \<longrightarrow>
            main sd (prog # pre @ a # rest) =
              Some (Return 1
                ((Stderr, ''Unknown option: '' @ a @ ''\<newline>'') #
                 [(Stdout, ''Usage: cfbasic [OPTIONS] [filename]\<newline>''),
                 (Stdout, ''Options:\<newline>''),
                 (Stdout, ''  -M, --MEM <size>    Set memory limit (e.g., 1G, 512M, 2048K)\<newline>''),
                 (Stdout, ''  -h, --help          Show this help message\<newline>''),
                 (Stdout, ''  -v, --version       Show version information\<newline>'')])))
       \<and> (a = ''-h'' \<or> a = ''--help'' \<longrightarrow>
            main sd (prog # pre @ a # rest) =
              Some (Return 0
                [(Stdout, ''Usage: cfbasic [OPTIONS] [filename]\<newline>''),
                 (Stdout, ''Options:\<newline>''),
                 (Stdout, ''  -M, --MEM <size>    Set memory limit (e.g., 1G, 512M, 2048K)\<newline>''),
                 (Stdout, ''  -h, --help          Show this help message\<newline>''),
                 (Stdout, ''  -v, --version       Show version information\<newline>'')]))
       \<and> (a = ''-v'' \<or> a = ''--version'' \<longrightarrow>
            main sd (prog # pre @ a # rest) = Some (Return 0 [(Stdout, ''CFBASIC V1.0.1\<newline>'')]))"
proof -
  from assms have pre: "scan_arguments sd pre 65536 None = Some (Launch memory_limit filename)"
    by (simp add: main_def)
  have step: "main sd (prog # pre @ xs) = scan_arguments sd xs memory_limit filename" for xs
    using scan_arguments_append [OF pre] by (simp add: main_def)
  show ?thesis
    unfolding step by (auto simp: print_usage_def)
qed

text \<open>
  After the file name \<open>prog.bas\<close>: a memory size \<open>abc\<close>, for which \<open>strtod\<close>
  returns 0 and the whole string; an option \<open>--fast\<close>; \<open>-h\<close>; and \<open>--version\<close>.
\<close>

theorem cli_exit_status_witness:
  "main (returning (Finite 0) ''abc'') [''cfbasic'', ''prog.bas'', ''-M'', ''abc'', ''-h'']
     = Some (Return 1 [(Stderr, ''Invalid memory size: abc\<newline>'')])
   \<and> main (returning (Finite 0) ''abc'') [''cfbasic'', ''prog.bas'', ''--fast'', ''-h'']
     = Some (Return 1
         ((Stderr, ''Unknown option: --fast\<newline>'') #
                 [(Stdout, ''Usage: cfbasic [OPTIONS] [filename]\<newline>''),
                 (Stdout, ''Options:\<newline>''),
                 (Stdout, ''  -M, --MEM <size>    Set memory limit (e.g., 1G, 512M, 2048K)\<newline>''),
                 (Stdout, ''  -h, --help          Show this help message\<newline>''),
                 (Stdout, ''  -v, --version       Show version information\<newline>'')]))
   \<and> main (returning (Finite 0) ''abc'') [''cfbasic'', ''prog.bas'', ''-h'', ''--fast'']
     = Some (Return 0
                [(Stdout, ''Usage: cfbasic [OPTIONS] [filename]\<newline>''),
                 (Stdout, ''Options:\<newline>''),
                 (Stdout, ''  -M, --MEM <size>    Set memory limit (e.g., 1G, 512M, 2048K)\<newline>''),
                 (Stdout, ''  -h, --help          Show this help message\<newline>''),
                 (Stdout, ''  -v, --version       Show version information\<newline>'')])
   \<and> main (returning (Finite 0) ''abc'') [''cfbasic'', ''prog.bas'', ''--version'']
     = Some (Return 0 [(Stdout, ''CFBASIC V1.0.1\<newline>'')])"
  using cli_exit_status [of "returning (Finite 0) ''abc''" "''cfbasic''" "[''prog.bas'']" 65536
      "Some ''prog.bas''" "''-M''" "''abc''" "[''-h'']" "''-M''"]
    cli_exit_status [of "returning (Finite 0) ''abc''" "''cfbasic''" "[''prog.bas'']" 65536
      "Some ''prog.bas''" "''--fast''" "''abc''" "[''-h'']" "''-fast''"]
    cli_exit_status [of "returning (Finite 0) ''abc''" "''cfbasic''" "[''prog.bas'']" 65536
      "Some ''prog.bas''" "''-h''" "''abc''" "[''--fast'']" "''h''"]
    cli_exit_status [of "returning (Finite 0) ''abc''" "''cfbasic''" "[''prog.bas'']" 65536
      "Some ''prog.bas''" "''--version''" "''abc''" "[]" "''-version''"]
  by (simp add: main_def parse_memory_size_def returning_def le_zero_def)

section \<open>Properties of the screen editor\<close>

text \<open>
  An address below 1024 or above 2023 gives an offset that is negative or at least 1000,
  also where the subtraction wraps around.
\<close>

lemma offset_outside:
  fixes addr :: c_int
  assumes "sint addr < 1024 \<or> 2023 < sint addr"
  shows "addr - 1024 <s 0 \<or> 1000 \<le>s addr - 1024"
proof -
  have range: "- (2 ^ 31) \<le> sint addr" "sint addr < 2 ^ 31"
    using sint_range_size [of addr] by (simp_all add: word_size)
  have diff: "sint (addr - 1024) = signed_take_bit 31 (sint addr - 1024)"
    by (simp add: sint_word_ariths)
  show ?thesis
  proof (cases "sint addr - 1024 < - (2 ^ 31)")
    case True
    from signed_take_bit_int_greater_eq [OF True]
    have "sint addr - 1024 + 2 ^ 32 \<le> sint (addr - 1024)"
      by (simp add: diff)
    with range have "1000 \<le> sint (addr - 1024)"
      by simp
    then show ?thesis
      by (simp add: word_sle_eq)
  next
    case False
    with range have "signed_take_bit 31 (sint addr - 1024) = sint addr - 1024"
      by (intro signed_take_bit_int_eq_self) simp_all
    with assms diff have "sint (addr - 1024) < 0 \<or> 1000 \<le> sint (addr - 1024)"
      by auto
    then show ?thesis
      by (simp add: word_sle_eq word_sless_alt)
  qed
qed

text \<open>
  C8. \<open>editor_plot\<close> with \<open>x\<close> below 0 or not below \<open>cols\<close>, or \<open>y\<close> below 0 or
  not below \<open>rows\<close>, returns the editor as it was (buffer and cursor) and sends nothing to
  the terminal. \<open>editor_poke_char\<close> with an address below 1024 or above 2023 does the
  same, for every address an \<open>int\<close> can hold.
\<close>

theorem out_of_bounds_writes_ignored:
  "(x <s 0 \<or> cols ed \<le>s x \<or> y <s 0 \<or> rows ed \<le>s y \<longrightarrow>
      editor_plot ed x y c = Some (ed, []))
   \<and> (sint addr < 1024 \<or> 2023 < sint addr \<longrightarrow>
        editor_poke_char ed addr val = Some (ed, []))"
  using offset_outside [of addr]
  by (auto simp: editor_plot_def editor_poke_char_def Let_def)

text \<open>
  On the screen of three rows and four columns: column 4 and row -1 are off the screen,
  and so are the addresses 1023, 2024 and the smallest \<open>int\<close>. Address 1024 is on it.
\<close>

theorem out_of_bounds_writes_ignored_witness:
  "editor_plot small_screen 4 0 CHR ''X'' = Some (small_screen, [])
   \<and> editor_plot small_screen 0 (- 1) CHR ''X'' = Some (small_screen, [])
   \<and> editor_poke_char small_screen 1023 1 = Some (small_screen, [])
   \<and> editor_poke_char small_screen 2024 1 = Some (small_screen, [])
   \<and> editor_poke_char small_screen (- 2147483648) 1 = Some (small_screen, [])"
  using out_of_bounds_writes_ignored [of 4 small_screen 0 "CHR ''X''" 1023 1]
    out_of_bounds_writes_ignored [of 0 small_screen "- 1" "CHR ''X''" 2024 1]
    out_of_bounds_writes_ignored [of 0 small_screen "- 1" "CHR ''X''" "- 2147483648" 1]
  by (simp add: small_screen_def word_sle_eq word_sless_alt)

lemma poke_on_screen:
  "editor_poke_char small_screen 1024 1 =
     Some (small_screen\<lparr>buffer := ''A           ''\<rparr>, [Move_cursor 0 0, Putchar CHR ''A'', Fflush])"
  by code_simp

lemma plot_on_screen:
  "editor_plot small_screen 1 2 CHR ''X'' =
     Some (small_screen\<lparr>buffer := ''         X  ''\<rparr>, [Move_cursor 2 1, Putchar CHR ''X'', Fflush])"
  by code_simp

end
